theory Spec2Isabelle
  imports Main "HOL-Library.AList"
begin

section \<open>JavaScript values\<close>

text \<open>
  The controllers, drivers and metadata classes are TypeScript; at run time every value
  they handle is a JavaScript value. \<open>jsval\<close> lists the kinds of value the modelled code
  distinguishes (by \<^verbatim>\<open>typeof\<close>, \<^verbatim>\<open>instanceof\<close>, \<^verbatim>\<open>===\<close> and truthiness):
  \<^item> numbers are integers (status codes, RPC codes); fractions and NaN are not modelled;
  \<^item> \<open>Func src\<close> is a callable value (a class or a function);
  \<^item> \<open>Buffer\<close> and \<open>Uint8Array\<close> carry their bytes;
  \<^item> \<open>Obj\<close> is a plain data object: its enumerable properties in insertion order, with
    distinct keys;
  \<^item> \<open>Host a ps\<close> is an object of the host framework (request, response, context, a
    stream) living at address \<open>a\<close>; only such objects are compared by identity.
  Members inherited from the built-in prototypes (\<^verbatim>\<open>toString\<close>, \<^verbatim>\<open>length\<close>, ...) are not
  modelled.
\<close>

datatype jsval =
    Undefined
  | Null
  | Boolean bool
  | Number int
  | Str string
  | Func string
  | Buffer "nat list"
  | Uint8Array "nat list"
  | Obj "(string \<times> jsval) list"
  | Host nat "(string \<times> jsval) list"

text \<open>What a \<^verbatim>\<open>throw\<close> carries. \<open>Thrown c\<close> is \<^verbatim>\<open>new c(options)\<close> for a constructor \<open>c\<close>
  supplied by the application (a result code that is a function).\<close>

datatype error =
    TypeError string
  | SyntaxError string
  | Error string
  | Thrown jsval

text \<open>Truthiness, as \<^verbatim>\<open>if (v)\<close>, \<^verbatim>\<open>!v\<close>, \<^verbatim>\<open>a && b\<close> and \<^verbatim>\<open>a || b\<close> read a value.\<close>

fun truthy :: "jsval \<Rightarrow> bool" where
  "truthy Undefined = False"
| "truthy Null = False"
| "truthy (Boolean b) = b"
| "truthy (Number n) = (n \<noteq> 0)"
| "truthy (Str s) = (s \<noteq> [])"
| "truthy _ = True"

text \<open>\<^verbatim>\<open>a || b\<close> on values.\<close>

definition js_or :: "jsval \<Rightarrow> jsval \<Rightarrow> jsval" where
  "js_or a b = (if truthy a then a else b)"

text \<open>Own enumerable properties of a plain object: \<^verbatim>\<open>Object.keys(o)\<close> and \<^verbatim>\<open>o[k]\<close>
  (\<^verbatim>\<open>undefined\<close> for a missing key), and the assignment \<^verbatim>\<open>o[k] = v\<close>, which replaces the
  value of an existing key in place and appends a new key.\<close>

definition keys_of :: "(string \<times> jsval) list \<Rightarrow> string list" where
  "keys_of ps = map fst ps"

definition prop_of :: "(string \<times> jsval) list \<Rightarrow> string \<Rightarrow> jsval" where
  "prop_of ps k = (case map_of ps k of Some v \<Rightarrow> v | None \<Rightarrow> Undefined)"

definition set_prop :: "(string \<times> jsval) list \<Rightarrow> string \<Rightarrow> jsval \<Rightarrow> (string \<times> jsval) list" where
  "set_prop ps k v = AList.update k v ps"

text \<open>
  What the JavaScript engine and the packages outside this repository contribute:
  \<^item> \<open>regexp_ok p f\<close>: \<^verbatim>\<open>new RegExp(p, f)\<close> accepts the pattern (it throws a SyntaxError
    otherwise);
  \<^item> \<open>property_key v\<close>: the property key \<^verbatim>\<open>o[v]\<close> uses (a string is its own key);
  \<^item> \<open>classToPlain\<close>: the class-transformer function of that name;
  \<^item> \<open>body_parser_installed\<close>: \<^verbatim>\<open>require("body-parser")\<close> succeeds.
\<close>

record engine =
  regexp_ok :: "string \<Rightarrow> string \<Rightarrow> bool"
  property_key :: "jsval \<Rightarrow> string"
  classToPlain :: "jsval \<Rightarrow> jsval \<Rightarrow> jsval"
  body_parser_installed :: bool

section \<open>Metadata\<close>

subsection \<open>Routes\<close>

text \<open>A route is \<^verbatim>\<open>string | RegExp\<close>. A pattern is its text and its flags; \<open>source\<close> is
  the text between the slashes of its printed form. (The \<^verbatim>\<open>source\<close> getter escapes a
  bare \<^verbatim>\<open>/\<close> of a constructed pattern; that does not change what it matches and is not
  modelled.)\<close>

datatype regexp = RegExp (source: string) (flags: string)

datatype route = RouteString string | RoutePattern regexp | RouteUndefined

text \<open>\<^verbatim>\<open>name.toString()\<close> of a pattern: \<^verbatim>\<open>/source/flags\<close>.\<close>

definition regexp_toString :: "regexp \<Rightarrow> string" where
  "regexp_toString r = ''/'' @ source r @ ''/'' @ flags r"

definition new_RegExp :: "engine \<Rightarrow> string \<Rightarrow> string \<Rightarrow> error + route" where
  "new_RegExp rt p f =
     (if regexp_ok rt p f then Inr (RoutePattern (RegExp p f))
      else Inl (SyntaxError (''Invalid regular expression: /'' @ p @ ''/'')))"

text \<open>The prefix of \<^verbatim>\<open>appendBaseRoute\<close>: a slash is put in front of a non-empty base route
  only when the base route contains no slash at all
  (\<^verbatim>\<open>baseRoute.length > 0 && baseRoute.indexOf("/") < 0\<close>).\<close>

definition route_prefix :: "string \<Rightarrow> string" where
  "route_prefix baseRoute =
     (if length baseRoute > 0 \<and> CHR ''/'' \<notin> set baseRoute then ''/'' else '''') @ baseRoute"

text \<open>\<^verbatim>\<open>MethodMetadata.appendBaseRoute(baseRoute, name)\<close>.\<close>

fun appendBaseRoute :: "engine \<Rightarrow> string \<Rightarrow> route \<Rightarrow> error + route" where
  "appendBaseRoute rt baseRoute (RouteString name) =
     Inr (RouteString (route_prefix baseRoute @ name))"
| "appendBaseRoute rt baseRoute (RoutePattern name) =
     (if baseRoute = '''' then Inr (RoutePattern name)
      else (let fullPath = ''^'' @ route_prefix baseRoute @ drop 1 (regexp_toString name) @ ''?$''
            in new_RegExp rt fullPath (flags name)))"
| "appendBaseRoute rt baseRoute RouteUndefined =
     (if baseRoute = '''' then Inr RouteUndefined
      else Inl (TypeError ''Cannot read property toString of undefined''))"

subsection \<open>Response handlers, parameters, options\<close>

text \<open>\<^verbatim>\<open>ResponseHandlerMetadata\<close> and \<^verbatim>\<open>ParamMetadata\<close> are declared in files of
  their own; the records hold the members the modelled code reads
  (\<^verbatim>\<open>type\<close>, \<^verbatim>\<open>value\<close>, \<^verbatim>\<open>secondaryValue\<close>, \<^verbatim>\<open>method\<close>; \<^verbatim>\<open>type\<close>, \<^verbatim>\<open>name\<close>).\<close>

record ResponseHandlerMetadata =
  handler_type :: string
  handler_value :: jsval
  secondaryValue :: jsval
  handler_method :: "string option"

record ParamMetadata =
  param_type :: string
  param_name :: "string option"

text \<open>\<^verbatim>\<open>ApplicationOptions.defaults\<close>, the only option \<^verbatim>\<open>MethodMetadata\<close> reads.\<close>

record Defaults =
  default_nullResultCode :: jsval
  default_undefinedResultCode :: jsval

record ApplicationOptions =
  defaults :: "Defaults option"

subsection \<open>MethodMetadata\<close>

text \<open>The back-reference \<^verbatim>\<open>controllerMetadata\<close> is used for its \<^verbatim>\<open>name\<close> only; the record
  holds that name (the empty string when the controller has none). \<^verbatim>\<open>headers\<close> and the
  result codes are \<^verbatim>\<open>undefined\<close> until \<^verbatim>\<open>build\<close> has run.\<close>

record MethodMetadata =
  controllerMetadata_name :: string
  params :: "ParamMetadata list"
  method_target :: string
  method_method :: string
  method_type :: string
  method_name :: route
  fullRoute :: route
  responseClassTransformOptions :: jsval
  undefinedResultCode :: jsval
  nullResultCode :: jsval
  successHttpCode :: jsval
  headers :: "(string \<times> jsval) list option"
  bodyExtraOptions :: jsval
  options :: ApplicationOptions

text \<open>\<^verbatim>\<open>buildFullRoute()\<close>.\<close>

definition buildFullRoute :: "engine \<Rightarrow> MethodMetadata \<Rightarrow> error + route" where
  "buildFullRoute rt this =
     (case method_name this of
        RoutePattern r \<Rightarrow>
          (if controllerMetadata_name this \<noteq> ''''
           then appendBaseRoute rt (controllerMetadata_name this) (RoutePattern r)
           else Inr (RoutePattern r))
      | RouteString s \<Rightarrow>
          (let path0 = '''';
               path1 = (if controllerMetadata_name this \<noteq> ''''
                        then path0 @ controllerMetadata_name this else path0);
               path2 = (if s \<noteq> '''' then path1 @ s else path1)
           in Inr (RouteString path2))
      | RouteUndefined \<Rightarrow>
          (let path0 = '''';
               path1 = (if controllerMetadata_name this \<noteq> ''''
                        then path0 @ controllerMetadata_name this else path0)
           in Inr (RouteString path1)))"

text \<open>\<^verbatim>\<open>buildHeaders(responseHandlers)\<close>: a fresh object, the content type first, then one
  assignment per header handler in declaration order.\<close>

definition buildHeaders :: "engine \<Rightarrow> ResponseHandlerMetadata list \<Rightarrow> (string \<times> jsval) list" where
  "buildHeaders rt responseHandlers =
     (let contentTypeHandler = find (\<lambda>h. handler_type h = ''content-type'') responseHandlers;
          headers0 = [];
          headers1 = (case contentTypeHandler of
                        Some h \<Rightarrow> set_prop headers0 ''Content-type'' (handler_value h)
                      | None \<Rightarrow> headers0);
          headerHandlers = filter (\<lambda>h. handler_type h = ''header'') responseHandlers
      in fold (\<lambda>h hs. set_prop hs (property_key rt (handler_value h)) (secondaryValue h))
           headerHandlers headers1)"

text \<open>\<^verbatim>\<open>this.options.defaults && this.options.defaults.undefinedResultCode\<close> and its
  sibling for \<^verbatim>\<open>null\<close>.\<close>

definition default_undefined :: "ApplicationOptions \<Rightarrow> jsval" where
  "default_undefined opts =
     (case defaults opts of None \<Rightarrow> Undefined | Some d \<Rightarrow> default_undefinedResultCode d)"

definition default_null :: "ApplicationOptions \<Rightarrow> jsval" where
  "default_null opts =
     (case defaults opts of None \<Rightarrow> Undefined | Some d \<Rightarrow> default_nullResultCode d)"

text \<open>\<^verbatim>\<open>MethodMetadata.build(responseHandlers)\<close>. The lookups and the assignments follow the
  source's order (five of the lookups bind constants that are never read); an exception
  of \<^verbatim>\<open>buildFullRoute\<close> leaves the method.\<close>

definition MethodMetadata_build ::
  "engine \<Rightarrow> MethodMetadata \<Rightarrow> ResponseHandlerMetadata list \<Rightarrow> error + MethodMetadata" where
  "MethodMetadata_build rt this responseHandlers =
     (let classTransformerResponseHandler =
            find (\<lambda>h. handler_type h = ''response-class-transform-options'') responseHandlers;
          undefinedResultHandler = find (\<lambda>h. handler_type h = ''on-undefined'') responseHandlers;
          nullResultHandler = find (\<lambda>h. handler_type h = ''on-null'') responseHandlers;
          successCodeHandler = find (\<lambda>h. handler_type h = ''success-code'') responseHandlers;
          redirectHandler = find (\<lambda>h. handler_type h = ''redirect'') responseHandlers;
          renderedTemplateHandler =
            find (\<lambda>h. handler_type h = ''rendered-template'') responseHandlers;
          authorizedHandler = find (\<lambda>h. handler_type h = ''authorized'') responseHandlers;
          contentTypeHandler = find (\<lambda>h. handler_type h = ''content-type'') responseHandlers;
          bodyParam = find (\<lambda>p. param_type p = ''body'') (params this);
          this1 = (case classTransformerResponseHandler of
                     Some h \<Rightarrow> this\<lparr>responseClassTransformOptions := handler_value h\<rparr>
                   | None \<Rightarrow> this);
          this2 = this1\<lparr>undefinedResultCode :=
                     (case undefinedResultHandler of
                        Some h \<Rightarrow> handler_value h
                      | None \<Rightarrow> default_undefined (options this1))\<rparr>;
          this3 = this2\<lparr>nullResultCode :=
                     (case nullResultHandler of
                        Some h \<Rightarrow> handler_value h
                      | None \<Rightarrow> default_null (options this2))\<rparr>;
          this4 = (case successCodeHandler of
                     Some h \<Rightarrow> this3\<lparr>successHttpCode := handler_value h\<rparr>
                   | None \<Rightarrow> this3)
      in case buildFullRoute rt this4 of
           Inl e \<Rightarrow> Inl e
         | Inr r \<Rightarrow> Inr (this4\<lparr>fullRoute := r,
                              headers := Some (buildHeaders rt responseHandlers)\<rparr>))"

subsection \<open>ControllerMetadata\<close>

record ControllerMetadata =
  methods :: "MethodMetadata list"
  controller_target :: string
  controller_name :: string

text \<open>\<^verbatim>\<open>!handler.method\<close>: no method name, or an empty one.\<close>

definition no_method :: "ResponseHandlerMetadata \<Rightarrow> bool" where
  "no_method h = (case handler_method h of None \<Rightarrow> True | Some m \<Rightarrow> m = '''')"

text \<open>\<^verbatim>\<open>ControllerMetadata.build(responseHandlers)\<close>: one lookup, bound to a constant that
  is never read.\<close>

definition ControllerMetadata_build ::
  "ControllerMetadata \<Rightarrow> ResponseHandlerMetadata list \<Rightarrow> ControllerMetadata" where
  "ControllerMetadata_build this responseHandlers =
     (let authorizedHandler =
            find (\<lambda>h. handler_type h = ''authorized'' \<and> no_method h) responseHandlers
      in this)"

section \<open>Drivers\<close>

subsection \<open>Reading values\<close>

text \<open>\<^verbatim>\<open>String.prototype.toLowerCase\<close> on ASCII letters (header names and HTTP verbs).\<close>

definition lower_char :: "char \<Rightarrow> char" where
  "lower_char c =
     (case map_of (zip ''ABCDEFGHIJKLMNOPQRSTUVWXYZ'' ''abcdefghijklmnopqrstuvwxyz'') c of
        Some l \<Rightarrow> l
      | None \<Rightarrow> c)"

definition toLowerCase :: "string \<Rightarrow> string" where
  "toLowerCase s = map lower_char s"

text \<open>Decimal index keys (\<^verbatim>\<open>"0"\<close>, \<^verbatim>\<open>"1"\<close>, ...) of strings and byte arrays.\<close>

definition digit_char :: "nat \<Rightarrow> char" where
  "digit_char n = ''0123456789'' ! (n mod 10)"

function show_nat :: "nat \<Rightarrow> string" where
  "show_nat n = (if n < 10 then [digit_char n] else show_nat (n div 10) @ [digit_char n])"
  by pat_completeness auto
termination
  by (relation "measure id") auto

definition indexed :: "'a list \<Rightarrow> (string \<times> 'a) list" where
  "indexed xs = zip (map show_nat [0..<length xs]) xs"

text \<open>The enumerable properties a \<^verbatim>\<open>for (let i in v)\<close> loop visits and \<^verbatim>\<open>v[i]\<close> reads:
  the properties of an object, the characters of a string, the bytes of a byte array.
  \<^verbatim>\<open>null\<close>, \<^verbatim>\<open>undefined\<close>, numbers, booleans and functions have none. (Enumerable members
  that a prototype contributes are not listed.)\<close>

fun enum_props :: "jsval \<Rightarrow> (string \<times> jsval) list" where
  "enum_props (Obj ps) = ps"
| "enum_props (Host a ps) = ps"
| "enum_props (Str s) = indexed (map (\<lambda>c. Str [c]) s)"
| "enum_props (Buffer bs) = indexed (map (\<lambda>b. Number (int b)) bs)"
| "enum_props (Uint8Array bs) = indexed (map (\<lambda>b. Number (int b)) bs)"
| "enum_props _ = []"

definition nullish :: "jsval \<Rightarrow> bool" where
  "nullish v = (v = Undefined \<or> v = Null)"

text \<open>\<^verbatim>\<open>v[k]\<close> and \<^verbatim>\<open>v.k\<close>: a TypeError on \<^verbatim>\<open>null\<close> and \<^verbatim>\<open>undefined\<close>, else the property or
  \<^verbatim>\<open>undefined\<close>.\<close>

definition get_member :: "jsval \<Rightarrow> string \<Rightarrow> error + jsval" where
  "get_member v k =
     (if nullish v then Inl (TypeError (''Cannot read property '' @ k @ '' of null or undefined''))
      else Inr (prop_of (enum_props v) k))"

text \<open>\<^verbatim>\<open>k in v\<close>: a TypeError unless \<open>v\<close> is an object or a function.\<close>

fun has_property :: "jsval \<Rightarrow> string \<Rightarrow> error + bool" where
  "has_property (Obj ps) k = Inr (map_of ps k \<noteq> None)"
| "has_property (Host a ps) k = Inr (map_of ps k \<noteq> None)"
| "has_property (Buffer bs) k = Inr (map_of (enum_props (Buffer bs)) k \<noteq> None)"
| "has_property (Uint8Array bs) k = Inr (map_of (enum_props (Uint8Array bs)) k \<noteq> None)"
| "has_property (Func f) k = Inr False"
| "has_property _ k = Inl (TypeError (''Cannot use in operator to search for '' @ k))"

text \<open>\<^verbatim>\<open>typeof v === "object"\<close> (true of \<^verbatim>\<open>null\<close>) and the \<^verbatim>\<open>instanceof\<close> tests of the
  drivers. A Buffer is a Uint8Array.\<close>

fun typeof_object :: "jsval \<Rightarrow> bool" where
  "typeof_object Null = True"
| "typeof_object (Buffer bs) = True"
| "typeof_object (Uint8Array bs) = True"
| "typeof_object (Obj ps) = True"
| "typeof_object (Host a ps) = True"
| "typeof_object _ = False"

fun instanceof_Object :: "jsval \<Rightarrow> bool" where
  "instanceof_Object (Func f) = True"
| "instanceof_Object (Buffer bs) = True"
| "instanceof_Object (Uint8Array bs) = True"
| "instanceof_Object (Obj ps) = True"
| "instanceof_Object (Host a ps) = True"
| "instanceof_Object _ = False"

fun instanceof_Function :: "jsval \<Rightarrow> bool" where
  "instanceof_Function (Func f) = True"
| "instanceof_Function _ = False"

fun instanceof_Buffer :: "jsval \<Rightarrow> bool" where
  "instanceof_Buffer (Buffer bs) = True"
| "instanceof_Buffer _ = False"

fun instanceof_Uint8Array :: "jsval \<Rightarrow> bool" where
  "instanceof_Uint8Array (Buffer bs) = True"
| "instanceof_Uint8Array (Uint8Array bs) = True"
| "instanceof_Uint8Array _ = False"

text \<open>\<^verbatim>\<open>result.pipe instanceof Function\<close>, for a \<open>result\<close> that is not nullish.\<close>

definition pipe_is_function :: "jsval \<Rightarrow> bool" where
  "pipe_is_function v = instanceof_Function (prop_of (enum_props v) ''pipe'')"

fun bytes_of :: "jsval \<Rightarrow> nat list" where
  "bytes_of (Buffer bs) = bs"
| "bytes_of (Uint8Array bs) = bs"
| "bytes_of _ = []"

text \<open>\<^verbatim>\<open>new Buffer(result).toString("binary")\<close>: one character per byte.\<close>

definition binary_string :: "jsval \<Rightarrow> string" where
  "binary_string v = map char_of (bytes_of v)"

text \<open>\<^verbatim>\<open>v === o\<close> for the host object \<open>o\<close> at address \<open>a\<close> (the response, the context).\<close>

fun is_host_at :: "nat \<Rightarrow> jsval \<Rightarrow> bool" where
  "is_host_at a (Host b ps) = (a = b)"
| "is_host_at a _ = False"

subsection \<open>Requests, effects\<close>

text \<open>The members of the express request the driver reads.\<close>

record Request =
  req_method :: string
  req_body :: jsval
  req_params :: jsval
  req_query :: jsval
  req_headers :: jsval
  req_session :: jsval
  req_file :: jsval
  req_files :: jsval

text \<open>\<^verbatim>\<open>Method\<close>, the handle a driver passes to the executor:
  \<^verbatim>\<open>{request, response, context, next}\<close>. The response and the koa context are host
  objects, held by their addresses; \<^verbatim>\<open>next\<close> is the event \<open>Next\<close> below.\<close>

record Method =
  request :: Request
  response :: nat
  koa_context :: "nat option"

text \<open>What a handler does to the host: \<^verbatim>\<open>next()\<close>, \<^verbatim>\<open>response.status(c)\<close>,
  \<^verbatim>\<open>response.header(n, v)\<close> (koa: \<^verbatim>\<open>response.set(n, v)\<close>), \<^verbatim>\<open>response.end(b, "binary")\<close>,
  \<^verbatim>\<open>result.pipe(response)\<close>, \<^verbatim>\<open>response.json(v)\<close>, \<^verbatim>\<open>response.send(v)\<close>. A handler's run is
  the list of its effects in order, and the error it threw, if any.\<close>

datatype event =
    Next
  | Status jsval
  | SetHeader string jsval
  | EndBinary jsval
  | Pipe jsval nat
  | Json jsval
  | Send jsval

subsection \<open>BaseDriver\<close>

record BaseDriver =
  useClassTransformer :: bool
  classToPlainTransformOptions :: jsval
  isDefaultErrorHandlingEnabled :: bool
  developmentMode :: bool
  routePrefix :: string
  errorOverridingMap :: "(string \<times> jsval) list option"

text \<open>The repository holds \<^verbatim>\<open>BaseDriver\<close> twice: \<^verbatim>\<open>src/driver/BaseDriver.ts\<close>, and a second
  copy (\<^verbatim>\<open>part_001\<close>) with an error-override map. Both are modelled; a driver inherits
  \<^verbatim>\<open>transformResult\<close> from one of them.\<close>

datatype BaseDriver_file = BaseDriver_ts | BaseDriver_part_001

text \<open>\<^verbatim>\<open>transformResult\<close> of \<^verbatim>\<open>src/driver/BaseDriver.ts\<close>. After the transform branch come
  a branch for binary data and a branch that reads \<^verbatim>\<open>result.pipe\<close>, whatever \<open>result\<close> is.\<close>

definition transformResult ::
  "engine \<Rightarrow> BaseDriver \<Rightarrow> jsval \<Rightarrow> MethodMetadata \<Rightarrow> Method \<Rightarrow> event list \<times> (error + jsval)" where
  "transformResult rt this result m action =
     (let shouldTransform =
            (useClassTransformer this \<and> \<not> nullish result)
            \<and> instanceof_Object result
            \<and> \<not> (instanceof_Uint8Array result \<or> pipe_is_function result)
      in if shouldTransform
         then ([], Inr (classToPlain rt result
                          (js_or (responseClassTransformOptions m)
                                 (classToPlainTransformOptions this))))
         else if instanceof_Buffer result \<or> instanceof_Uint8Array result
         then ([], Inr (Str (binary_string result)))
         else (case get_member result ''pipe'' of
                 Inl e \<Rightarrow> ([], Inl e)
               | Inr p \<Rightarrow>
                   if instanceof_Function p then ([Pipe result (response action)], Inr result)
                   else ([], Inr result)))"

text \<open>\<^verbatim>\<open>transformResult\<close> of the second copy: the transform branch only.\<close>

definition transformResult_part_001 ::
  "engine \<Rightarrow> BaseDriver \<Rightarrow> jsval \<Rightarrow> MethodMetadata \<Rightarrow> Method \<Rightarrow> event list \<times> (error + jsval)" where
  "transformResult_part_001 rt this result m opts =
     (let shouldTransform =
            (useClassTransformer this \<and> \<not> nullish result)
            \<and> instanceof_Object result
            \<and> \<not> (instanceof_Uint8Array result \<or> pipe_is_function result)
      in if shouldTransform
         then ([], Inr (classToPlain rt result
                          (js_or (responseClassTransformOptions m)
                                 (classToPlainTransformOptions this))))
         else ([], Inr result))"

definition base_transformResult ::
  "BaseDriver_file \<Rightarrow> engine \<Rightarrow> BaseDriver \<Rightarrow> jsval \<Rightarrow> MethodMetadata \<Rightarrow> Method
     \<Rightarrow> event list \<times> (error + jsval)" where
  "base_transformResult src =
     (case src of BaseDriver_ts \<Rightarrow> transformResult
                | BaseDriver_part_001 \<Rightarrow> transformResult_part_001)"

text \<open>
  \<^verbatim>\<open>merge(obj1, obj2)\<close>, the same text in both copies. The first loop visits the
  properties of \<open>obj1\<close> and merges those that are objects and are in \<open>obj2\<close> by a recursive
  call; the second loop then assigns every property of \<open>obj2\<close>. (\<^verbatim>\<open>i !== null\<close> holds of
  every key.) \<open>merge_props\<close> is the first loop over the properties of an object,
  \<open>merge_flat\<close> the same loop over the elements of a string or byte array, none of which
  is an object.
\<close>

fun merge_flat ::
  "(string \<times> jsval) list \<Rightarrow> jsval \<Rightarrow> (string \<times> jsval) list \<Rightarrow> error + (string \<times> jsval) list" where
  "merge_flat [] obj2 result = Inr result"
| "merge_flat ((i, v) # rest) obj2 result =
     (case has_property obj2 i of
        Inl e \<Rightarrow> Inl e
      | Inr present \<Rightarrow> merge_flat rest obj2 (set_prop result i v))"

definition merge_second_loop :: "jsval \<Rightarrow> (string \<times> jsval) list \<Rightarrow> (string \<times> jsval) list" where
  "merge_second_loop obj2 result =
     fold (\<lambda>i r. set_prop r i (prop_of (enum_props obj2) i)) (keys_of (enum_props obj2)) result"

fun merge :: "jsval \<Rightarrow> jsval \<Rightarrow> error + jsval"
  and merge_props ::
    "(string \<times> jsval) list \<Rightarrow> jsval \<Rightarrow> (string \<times> jsval) list \<Rightarrow> error + (string \<times> jsval) list" where
  "merge (Obj ps) obj2 =
     (case merge_props ps obj2 [] of
        Inl e \<Rightarrow> Inl e
      | Inr result \<Rightarrow> Inr (Obj (merge_second_loop obj2 result)))"
| "merge (Host a ps) obj2 =
     (case merge_props ps obj2 [] of
        Inl e \<Rightarrow> Inl e
      | Inr result \<Rightarrow> Inr (Obj (merge_second_loop obj2 result)))"
| "merge obj1 obj2 =
     (case merge_flat (enum_props obj1) obj2 [] of
        Inl e \<Rightarrow> Inl e
      | Inr result \<Rightarrow> Inr (Obj (merge_second_loop obj2 result)))"
| "merge_props [] obj2 result = Inr result"
| "merge_props ((i, v) # rest) obj2 result =
     (case has_property obj2 i of
        Inl e \<Rightarrow> Inl e
      | Inr present \<Rightarrow>
          if present \<and> typeof_object v
          then (case merge v (prop_of (enum_props obj2) i) of
                  Inl e \<Rightarrow> Inl e
                | Inr merged \<Rightarrow> merge_props rest obj2 (set_prop result i merged))
          else merge_props rest obj2 (set_prop result i v))"

subsection \<open>Error envelopes\<close>

text \<open>
  What \<^verbatim>\<open>processJsonError\<close> can be handed: a string, \<^verbatim>\<open>null\<close> or \<^verbatim>\<open>undefined\<close>, or an
  object. Of an object the code asks: is it an \<^verbatim>\<open>Error\<close>, an \<^verbatim>\<open>RpcError\<close>; the name of its
  constructor; whether it has a \<^verbatim>\<open>toJSON\<close> function (\<open>Some v\<close>: it has, and calling it
  returns \<open>v\<close>); its own enumerable properties (\<^verbatim>\<open>Object.keys\<close>); and members that are
  readable without being enumerable, as \<^verbatim>\<open>message\<close> and \<^verbatim>\<open>stack\<close> of an \<^verbatim>\<open>Error\<close> and the
  \<^verbatim>\<open>name\<close> its prototype gives it.
\<close>

record error_object =
  is_Error :: bool
  is_RpcError :: bool
  constructor_name :: jsval
  toJSON_result :: "jsval option"
  own_props :: "(string \<times> jsval) list"
  other_props :: "(string \<times> jsval) list"

datatype caught = CaughtString string | CaughtNullish | CaughtObject error_object

text \<open>\<^verbatim>\<open>error.k\<close> and \<^verbatim>\<open>error[k]\<close> of an object: an own enumerable property first.\<close>

definition read_error :: "error_object \<Rightarrow> string \<Rightarrow> jsval" where
  "read_error e k =
     (case map_of (own_props e) k of Some v \<Rightarrow> v | None \<Rightarrow> prop_of (other_props e) k)"

text \<open>The error classes of \<^verbatim>\<open>src/rpc-error\<close> as far as \<^verbatim>\<open>processJsonError\<close> uses them:
  \<^verbatim>\<open>new InternalError(message)\<close> and \<^verbatim>\<open>new ServerError().rpcCode\<close>.\<close>

record rpc_errors =
  new_InternalError :: "string \<Rightarrow> error_object"
  ServerError_rpcCode :: jsval

text \<open>
  \<^verbatim>\<open>processJsonError\<close> of \<^verbatim>\<open>src/driver/BaseDriver.ts\<close>. Its three branches differ in the
  code they store and then run the same statements, \<open>envelope_of\<close>: the message if there
  is one, a \<^verbatim>\<open>data\<close> object holding the stack (in development mode) and the error's own
  properties but \<^verbatim>\<open>stack\<close>, \<^verbatim>\<open>name\<close>, \<^verbatim>\<open>message\<close> and \<^verbatim>\<open>rpcCode\<close>.
\<close>

definition envelope_of :: "BaseDriver \<Rightarrow> jsval \<Rightarrow> error_object \<Rightarrow> jsval" where
  "envelope_of this code e =
     (let processedError0 = set_prop [] ''code'' code;
          processedError1 =
            (if truthy (read_error e ''message'')
             then set_prop processedError0 ''message'' (read_error e ''message'')
             else processedError0);
          data0 = [];
          data1 =
            (if truthy (read_error e ''stack'') \<and> developmentMode this
             then set_prop data0 ''stack'' (read_error e ''stack'')
             else data0);
          data2 =
            fold (\<lambda>key d. set_prop d key (read_error e key))
              (filter (\<lambda>key. key \<noteq> ''stack'' \<and> key \<noteq> ''name'' \<and> key \<noteq> ''message''
                             \<and> key \<noteq> ''rpcCode'')
                 (keys_of (own_props e)))
              data1;
          processedError2 = set_prop processedError1 ''data'' (Obj data2)
      in if length (keys_of processedError2) > 0 then Obj processedError2 else Undefined)"

definition processJsonError :: "rpc_errors \<Rightarrow> BaseDriver \<Rightarrow> caught \<Rightarrow> error + jsval" where
  "processJsonError rpc this error =
     (case error of
        CaughtObject e \<Rightarrow>
          if is_RpcError e then Inr (envelope_of this (read_error e ''rpcCode'') e)
          else Inr (envelope_of this (ServerError_rpcCode rpc) e)
      | CaughtString s \<Rightarrow>
          (let e = new_InternalError rpc s
           in Inr (envelope_of this (read_error e ''rpcCode'') e))
      | CaughtNullish \<Rightarrow>
          Inl (TypeError ''Cannot read property message of null or undefined''))"

text \<open>
  \<^verbatim>\<open>processJsonError\<close> of the second copy. It returns what \<^verbatim>\<open>toJSON\<close> returns, or the
  envelope of an \<^verbatim>\<open>Error\<close> (name, message, stack in development mode, own properties,
  then the override whose key is the name, merged in by \<^verbatim>\<open>merge\<close>), or the value it was
  given.
\<close>

datatype json_error = Envelope jsval | Itself caught

definition classified_name :: "error_object \<Rightarrow> jsval" where
  "classified_name e =
     (if truthy (read_error e ''name'') \<and> read_error e ''name'' \<noteq> Str ''Error''
      then read_error e ''name'' else constructor_name e)"

fun merge_each :: "string list \<Rightarrow> (string \<times> jsval) list \<Rightarrow> jsval \<Rightarrow> error + jsval" where
  "merge_each [] overrides processedError = Inr processedError"
| "merge_each (key # keys) overrides processedError =
     (case merge processedError (prop_of overrides key) of
        Inl e \<Rightarrow> Inl e
      | Inr merged \<Rightarrow> merge_each keys overrides merged)"

definition apply_overrides :: "BaseDriver \<Rightarrow> jsval \<Rightarrow> jsval \<Rightarrow> error + jsval" where
  "apply_overrides this name processedError =
     (case errorOverridingMap this of
        None \<Rightarrow> Inr processedError
      | Some overrides \<Rightarrow>
          merge_each (filter (\<lambda>key. name = Str key) (keys_of overrides)) overrides
            processedError)"

definition processJsonError_part_001 :: "BaseDriver \<Rightarrow> caught \<Rightarrow> error + json_error" where
  "processJsonError_part_001 this error =
     (case error of
        CaughtNullish \<Rightarrow> Inl (TypeError ''Cannot read property toJSON of null or undefined'')
      | CaughtString s \<Rightarrow> Inr (Itself (CaughtString s))
      | CaughtObject e \<Rightarrow>
          (case toJSON_result e of
             Some v \<Rightarrow> Inr (Envelope v)
           | None \<Rightarrow>
               if is_Error e
               then (let name = classified_name e;
                         processedError0 = set_prop [] ''name'' name;
                         processedError1 =
                           (if truthy (read_error e ''message'')
                            then set_prop processedError0 ''message'' (read_error e ''message'')
                            else processedError0);
                         processedError2 =
                           (if truthy (read_error e ''stack'') \<and> developmentMode this
                            then set_prop processedError1 ''stack'' (read_error e ''stack'')
                            else processedError1);
                         processedError3 =
                           fold (\<lambda>key pe. set_prop pe key (read_error e key))
                             (filter (\<lambda>key. key \<noteq> ''stack'' \<and> key \<noteq> ''name''
                                            \<and> key \<noteq> ''message''
                                            \<and> (\<not> is_RpcError e \<or> key \<noteq> ''httpCode''))
                                (keys_of (own_props e)))
                             processedError2
                     in case apply_overrides this name (Obj processedError3) of
                          Inl err \<Rightarrow> Inl err
                        | Inr processedError \<Rightarrow>
                            Inr (Envelope
                                   (if length (keys_of (enum_props processedError)) > 0
                                    then processedError else Undefined)))
               else Inr (Itself (CaughtObject e))))"

subsection \<open>ExpressDriver\<close>

text \<open>
  \<^verbatim>\<open>registerMethod\<close> ends in one call on the host:
  \<^verbatim>\<open>this.express(...[route, ...defaultMiddlewares, routeHandler])\<close>. The callee is the
  application object itself, applied as a function (\<open>Application\<close>), not one of its
  methods (\<open>Application_method name\<close>, as \<^verbatim>\<open>this.express.use(...)\<close> in \<^verbatim>\<open>initialize\<close>).
  \<open>express_call\<close> holds the callee and the arguments; what the host does with the call is
  the host's own code. \<open>routeHandler\<close> is the handler passed, which either calls
  \<^verbatim>\<open>next()\<close> or hands \<^verbatim>\<open>{request, response, next}\<close> to the \<^verbatim>\<open>executeCallback\<close> it was
  registered with.
\<close>

datatype middleware = JsonBodyParser jsval

datatype handler_step = CallNext | ExecuteCallback Method

datatype callee = Application | Application_method string

record express_call =
  callee :: callee
  call_route :: string
  call_middlewares :: "middleware list"
  call_handler :: "Request \<Rightarrow> nat \<Rightarrow> handler_step"

definition routeHandler :: "MethodMetadata \<Rightarrow> Request \<Rightarrow> nat \<Rightarrow> handler_step" where
  "routeHandler methodMetadata req res =
     (if toLowerCase (req_method req) \<noteq> method_type methodMetadata then CallNext
      else ExecuteCallback \<lparr>request = req, response = res, koa_context = None\<rparr>)"

definition ExpressDriver_registerMethod ::
  "engine \<Rightarrow> BaseDriver \<Rightarrow> MethodMetadata \<Rightarrow> error + express_call" where
  "ExpressDriver_registerMethod rt this methodMetadata =
     (if \<not> body_parser_installed rt
      then Inl (Error (''body-parser package was not found installed. '' @
                       ''Try to install it: npm install body-parser --save''))
      else (let defaultMiddlewares = [JsonBodyParser (bodyExtraOptions methodMetadata)];
                route = routePrefix this @ ''*''
            in Inr \<lparr>callee = Application, call_route = route,
                     call_middlewares = defaultMiddlewares,
                     call_handler = routeHandler methodMetadata\<rparr>))"

text \<open>\<^verbatim>\<open>o[param.name]\<close>: the key of a missing name is \<^verbatim>\<open>"undefined"\<close>.\<close>

definition name_key :: "ParamMetadata \<Rightarrow> string" where
  "name_key param = (case param_name param of None \<Rightarrow> ''undefined'' | Some n \<Rightarrow> n)"

definition has_name :: "ParamMetadata \<Rightarrow> bool" where
  "has_name param = (case param_name param of None \<Rightarrow> False | Some n \<Rightarrow> n \<noteq> [])"

text \<open>\<^verbatim>\<open>ExpressDriver.getParamFromRequest\<close>: the \<^verbatim>\<open>switch\<close> on \<^verbatim>\<open>param.type\<close>, case by case;
  a type that no case names returns \<^verbatim>\<open>undefined\<close>.\<close>

definition ExpressDriver_getParamFromRequest :: "Method \<Rightarrow> ParamMetadata \<Rightarrow> error + jsval" where
  "ExpressDriver_getParamFromRequest action param =
     (let req = request action; t = param_type param
      in if t = ''body'' then Inr (req_body req)
         else if t = ''body-param'' then get_member (req_body req) (name_key param)
         else if t = ''param'' then get_member (req_params req) (name_key param)
         else if t = ''params'' then Inr (req_params req)
         else if t = ''session''
           then (if has_name param then get_member (req_session req) (name_key param)
                 else Inr (req_session req))
         else if t = ''state''
           then Inl (Error ''@State decorators are not supported by express driver.'')
         else if t = ''query'' then get_member (req_query req) (name_key param)
         else if t = ''queries'' then Inr (req_query req)
         else if t = ''header''
           then (case param_name param of
                   None \<Rightarrow> Inl (TypeError ''Cannot read property toLowerCase of undefined'')
                 | Some n \<Rightarrow> get_member (req_headers req) (toLowerCase n))
         else if t = ''headers'' then Inr (req_headers req)
         else if t = ''file'' then Inr (req_file req)
         else if t = ''files'' then Inr (req_files req)
         else Inr Undefined)"

text \<open>
  \<^verbatim>\<open>ExpressDriver.handleSuccess\<close>, block by block: the status code
  (\<open>express_status\<close>), the headers (\<open>apply_headers\<close>), the body (\<open>express_body\<close>).
  \<^verbatim>\<open>throw new (code)(options)\<close> is the error \<open>Thrown code\<close>. In the last branch
  \<^verbatim>\<open>method\<close> is an object, so \<^verbatim>\<open>response.json\<close> is the call made.
\<close>

definition express_status :: "jsval \<Rightarrow> MethodMetadata \<Rightarrow> error + event list" where
  "express_status result m =
     (if result = Undefined \<and> truthy (undefinedResultCode m)
      then (if instanceof_Function (undefinedResultCode m)
            then Inl (Thrown (undefinedResultCode m))
            else Inr [Status (undefinedResultCode m)])
      else if result = Null
      then (if truthy (nullResultCode m)
            then (if instanceof_Function (nullResultCode m)
                  then Inl (Thrown (nullResultCode m))
                  else Inr [Status (nullResultCode m)])
            else Inr [Status (Number 204)])
      else if truthy (successHttpCode m) then Inr [Status (successHttpCode m)]
      else Inr [])"

definition apply_headers :: "MethodMetadata \<Rightarrow> error + event list" where
  "apply_headers m =
     (case headers m of
        None \<Rightarrow> Inl (TypeError ''Cannot convert undefined or null to object'')
      | Some hs \<Rightarrow> Inr (map (\<lambda>name. SetHeader name (prop_of hs name)) (keys_of hs)))"

definition express_body :: "jsval \<Rightarrow> MethodMetadata \<Rightarrow> Method \<Rightarrow> event list" where
  "express_body result m opts =
     (if result = Undefined
      then (if truthy (undefinedResultCode m) then [Next] else [])
      else if result = Null then [Next]
      else if instanceof_Buffer result then [EndBinary result]
      else if instanceof_Uint8Array result then [EndBinary (Buffer (bytes_of result))]
      else if pipe_is_function result then [Pipe result (response opts)]
      else [Json result, Next])"

definition ExpressDriver_handleSuccess ::
  "BaseDriver_file \<Rightarrow> engine \<Rightarrow> BaseDriver \<Rightarrow> jsval \<Rightarrow> MethodMetadata \<Rightarrow> Method
     \<Rightarrow> event list \<times> error option" where
  "ExpressDriver_handleSuccess src rt this result m opts =
     (if truthy result \<and> is_host_at (response opts) result then ([Next], None)
      else (case base_transformResult src rt this result m opts of
              (ev1, Inl e) \<Rightarrow> (ev1, Some e)
            | (ev1, Inr result1) \<Rightarrow>
                (case express_status result1 m of
                   Inl e \<Rightarrow> (ev1, Some e)
                 | Inr ev2 \<Rightarrow>
                     (case apply_headers m of
                        Inl e \<Rightarrow> (ev1 @ ev2, Some e)
                      | Inr ev3 \<Rightarrow>
                          (ev1 @ ev2 @ ev3 @ express_body result1 m opts, None)))))"

subsection \<open>KoaDriver\<close>

definition is_koa_context :: "Method \<Rightarrow> jsval \<Rightarrow> bool" where
  "is_koa_context opts v = (case koa_context opts of None \<Rightarrow> False | Some a \<Rightarrow> is_host_at a v)"

text \<open>\<^verbatim>\<open>KoaDriver.handleSuccess\<close>: the short cut, the transform, the error constructor for an
  \<^verbatim>\<open>undefined\<close> result, the headers, \<^verbatim>\<open>return options.next()\<close>.\<close>

definition KoaDriver_handleSuccess ::
  "BaseDriver_file \<Rightarrow> engine \<Rightarrow> BaseDriver \<Rightarrow> jsval \<Rightarrow> MethodMetadata \<Rightarrow> Method
     \<Rightarrow> event list \<times> error option" where
  "KoaDriver_handleSuccess src rt this result action opts =
     (if truthy result \<and> (is_host_at (response opts) result \<or> is_koa_context opts result)
      then ([Next], None)
      else (case base_transformResult src rt this result action opts of
              (ev1, Inl e) \<Rightarrow> (ev1, Some e)
            | (ev1, Inr result1) \<Rightarrow>
                if result1 = Undefined \<and> instanceof_Function (undefinedResultCode action)
                then (ev1, Some (Thrown (undefinedResultCode action)))
                else (case apply_headers action of
                        Inl e \<Rightarrow> (ev1, Some e)
                      | Inr ev2 \<Rightarrow> (ev1 @ ev2 @ [Next], None))))"

text \<open>
  \<^verbatim>\<open>KoaDriver.registerMethod\<close>: the route is \<^verbatim>\<open>appendBaseRoute(routePrefix, fullRoute)\<close>, and
  the call is \<^verbatim>\<open>this.router[type.toLowerCase()](...[route, routeHandler])\<close>, a method of the
  router named by the verb. Its handler passes every request on to the callback.
\<close>

record router_call =
  router_method :: string
  router_route :: route
  router_handler :: "nat \<Rightarrow> Request \<Rightarrow> nat \<Rightarrow> handler_step"

definition koa_routeHandler :: "nat \<Rightarrow> Request \<Rightarrow> nat \<Rightarrow> handler_step" where
  "koa_routeHandler ctx req res =
     ExecuteCallback \<lparr>request = req, response = res, koa_context = Some ctx\<rparr>"

definition KoaDriver_registerMethod ::
  "engine \<Rightarrow> BaseDriver \<Rightarrow> MethodMetadata \<Rightarrow> error + router_call" where
  "KoaDriver_registerMethod rt this actionMetadata =
     (case appendBaseRoute rt (routePrefix this) (fullRoute actionMetadata) of
        Inl e \<Rightarrow> Inl e
      | Inr route \<Rightarrow>
          Inr \<lparr>router_method = toLowerCase (method_type actionMetadata),
               router_route = route, router_handler = koa_routeHandler\<rparr>)"

text \<open>An envelope has an entry under a key: the key is among its enumerable properties.\<close>

definition has_key :: "jsval \<Rightarrow> string \<Rightarrow> bool" where
  "has_key v k = (map_of (enum_props v) k \<noteq> None)"

text \<open>No key of the error-override map is the name the error is classified under (or
  there is no map).\<close>

definition no_override :: "BaseDriver \<Rightarrow> error_object \<Rightarrow> bool" where
  "no_override this e =
     (case errorOverridingMap this of
        None \<Rightarrow> True
      | Some overrides \<Rightarrow>
          filter (\<lambda>key. classified_name e = Str key) (keys_of overrides) = [])"

text \<open>An override that applies to the error (its key is the name the error is classified
  under) has an entry under the key \<open>k\<close>.\<close>

definition override_has_key :: "BaseDriver \<Rightarrow> error_object \<Rightarrow> string \<Rightarrow> bool" where
  "override_has_key this e k =
     (case errorOverridingMap this of
        None \<Rightarrow> False
      | Some overrides \<Rightarrow>
          list_ex (\<lambda>key. has_key (prop_of overrides key) k)
            (filter (\<lambda>key. classified_name e = Str key) (keys_of overrides)))"

text \<open>The name, the message, the stack and the own properties of the error are no objects
  (strings, as those of \<^verbatim>\<open>new Error("boom")\<close>).\<close>

definition plain_fields :: "error_object \<Rightarrow> bool" where
  "plain_fields e =
     (\<not> typeof_object (classified_name e)
      \<and> list_all (\<lambda>key. \<not> typeof_object (read_error e key))
            (''message'' # ''stack'' # keys_of (own_props e)))"

fun is_Obj :: "jsval \<Rightarrow> bool" where
  "is_Obj (Obj ps) = True"
| "is_Obj _ = False"

text \<open>The override map has one key for the name of the error, and its entry is a plain
  object.\<close>

definition object_override :: "BaseDriver \<Rightarrow> error_object \<Rightarrow> bool" where
  "object_override this e =
     (case errorOverridingMap this of
        None \<Rightarrow> False
      | Some overrides \<Rightarrow>
          (case filter (\<lambda>key. classified_name e = Str key) (keys_of overrides) of
             [key] \<Rightarrow> is_Obj (prop_of overrides key)
           | _ \<Rightarrow> False))"

section \<open>Concrete inputs\<close>

text \<open>An engine that accepts every pattern, keys a property by the string it is given
  and whose \<^verbatim>\<open>classToPlain\<close> returns plain data unchanged.\<close>

definition plain_key :: "jsval \<Rightarrow> string" where
  "plain_key v = (case v of Str s \<Rightarrow> s | _ \<Rightarrow> ''[object]'')"

definition sample_engine :: engine where
  "sample_engine =
     \<lparr>regexp_ok = (\<lambda>p f. True), property_key = plain_key,
      classToPlain = (\<lambda>v opts. v), body_parser_installed = True\<rparr>"

text \<open>The method \<^verbatim>\<open>/add\<close> of a controller \<^verbatim>\<open>math\<close>, before \<^verbatim>\<open>build\<close>.\<close>

definition math_add :: MethodMetadata where
  "math_add =
     \<lparr>controllerMetadata_name = ''math'', params = [], method_target = ''Test'',
      method_method = ''foo'', method_type = ''post'', method_name = RouteString ''/add'',
      fullRoute = RouteUndefined, responseClassTransformOptions = Undefined,
      undefinedResultCode = Undefined, nullResultCode = Undefined,
      successHttpCode = Undefined, headers = None, bodyExtraOptions = Undefined,
      options = \<lparr>defaults = None\<rparr>\<rparr>"

definition sample_handlers :: "ResponseHandlerMetadata list" where
  "sample_handlers =
     [\<lparr>handler_type = ''header'', handler_value = Str ''X-A'', secondaryValue = Str ''1'',
       handler_method = Some ''foo''\<rparr>,
      \<lparr>handler_type = ''content-type'', handler_value = Str ''text/plain'',
       secondaryValue = Undefined, handler_method = Some ''foo''\<rparr>,
      \<lparr>handler_type = ''success-code'', handler_value = Number 201,
       secondaryValue = Undefined, handler_method = Some ''foo''\<rparr>,
      \<lparr>handler_type = ''header'', handler_value = Str ''X-A'', secondaryValue = Str ''2'',
       handler_method = Some ''foo''\<rparr>]"

text \<open>A driver with the class transformer on, outside development mode, mounted under
  \<^verbatim>\<open>/api\<close>, with no error overrides.\<close>

definition sample_driver :: BaseDriver where
  "sample_driver =
     \<lparr>useClassTransformer = True, classToPlainTransformOptions = Undefined,
      isDefaultErrorHandlingEnabled = True, developmentMode = False,
      routePrefix = ''/api'', errorOverridingMap = None\<rparr>"

text \<open>A request with the given verb, and the handle of that request with the response at
  address 1.\<close>

definition sample_request :: "string \<Rightarrow> Request" where
  "sample_request verb =
     \<lparr>req_method = verb, req_body = Obj [(''a'', Number 1)], req_params = Obj [],
      req_query = Obj [], req_headers = Obj [(''x-test'', Str ''1'')],
      req_session = Undefined, req_file = Undefined, req_files = Undefined\<rparr>"

definition sample_options :: Method where
  "sample_options = \<lparr>request = sample_request ''POST'', response = 1, koa_context = None\<rparr>"

text \<open>The method \<^verbatim>\<open>/add\<close> after \<^verbatim>\<open>build\<close>, with a status code for \<^verbatim>\<open>undefined\<close> results.\<close>

definition built_math_add :: MethodMetadata where
  "built_math_add =
     math_add\<lparr>fullRoute := RouteString ''math/add'', undefinedResultCode := Number 404,
              headers := Some [(''Content-type'', Str ''text/plain'')]\<rparr>"

text \<open>A readable stream (a host object with a \<^verbatim>\<open>pipe\<close> function) and the response object
  as values.\<close>

definition a_stream :: jsval where
  "a_stream = Host 7 [(''pipe'', Func ''pipe'')]"

definition the_response :: jsval where
  "the_response = Host 1 []"

text \<open>\<^verbatim>\<open>new Error("boom")\<close>: no enumerable property of its own; \<^verbatim>\<open>message\<close>, \<^verbatim>\<open>stack\<close> and
  the inherited \<^verbatim>\<open>name\<close> are readable.\<close>

definition boom :: error_object where
  "boom =
     \<lparr>is_Error = True, is_RpcError = False, constructor_name = Str ''Error'',
      toJSON_result = None, own_props = [],
      other_props = [(''name'', Str ''Error''), (''message'', Str ''boom''),
                     (''stack'', Str ''Error: boom at foo'')]\<rparr>"

definition sample_rpc_errors :: rpc_errors where
  "sample_rpc_errors =
     \<lparr>new_InternalError =
        (\<lambda>msg. \<lparr>is_Error = True, is_RpcError = True,
                 constructor_name = Str ''InternalError'', toJSON_result = None,
                 own_props = [(''rpcCode'', Number (- 32603))],
                 other_props = [(''name'', Str ''InternalError''), (''message'', Str msg),
                                (''stack'', Str ''InternalError'')]\<rparr>),
      ServerError_rpcCode = Number (- 32000)\<rparr>"

text \<open>The same driver with an override for errors named \<^verbatim>\<open>Error\<close>.\<close>

definition overriding_driver :: BaseDriver where
  "overriding_driver =
     sample_driver\<lparr>errorOverridingMap := Some [(''Error'', Obj [(''stack'', Str ''hidden'')])]\<rparr>"

text \<open>The same driver in development mode.\<close>

definition development_driver :: BaseDriver where
  "development_driver = sample_driver\<lparr>developmentMode := True\<rparr>"

text \<open>A driver, outside development mode and in it, with an override for \<^verbatim>\<open>Error\<close> that
  has no \<^verbatim>\<open>stack\<close> entry.\<close>

definition coded_driver :: "bool \<Rightarrow> BaseDriver" where
  "coded_driver dev =
     sample_driver\<lparr>developmentMode := dev,
                   errorOverridingMap := Some [(''Error'', Obj [(''code'', Number 42)])]\<rparr>"

section \<open>Route composition\<close>

lemma buildFullRoute_string:
  "method_name m = RouteString fragment \<Longrightarrow>
   buildFullRoute rt m = Inr (RouteString (controllerMetadata_name m @ fragment))"
  by (simp add: buildFullRoute_def Let_def)

lemma buildFullRoute_update [simp]:
  "buildFullRoute rt (m\<lparr>responseClassTransformOptions := a\<rparr>) = buildFullRoute rt m"
  "buildFullRoute rt (m\<lparr>undefinedResultCode := b\<rparr>) = buildFullRoute rt m"
  "buildFullRoute rt (m\<lparr>nullResultCode := c\<rparr>) = buildFullRoute rt m"
  "buildFullRoute rt (m\<lparr>successHttpCode := d\<rparr>) = buildFullRoute rt m"
  "buildFullRoute rt (m\<lparr>fullRoute := r\<rparr>) = buildFullRoute rt m"
  "buildFullRoute rt (m\<lparr>headers := h\<rparr>) = buildFullRoute rt m"
  by (simp_all add: buildFullRoute_def split: route.splits)




text \<open>
  C5. For a controller with a non-empty base name and a method whose route fragment is a
  string, \<^verbatim>\<open>build\<close> returns and sets \<^verbatim>\<open>fullRoute\<close> to the base name followed by the
  fragment, nothing put between them and nothing normalised.
\<close>

theorem build_fullRoute_string:
  "controllerMetadata_name m \<noteq> '''' \<Longrightarrow> method_name m = RouteString fragment \<Longrightarrow>
   \<exists>m'. MethodMetadata_build rt m hs = Inr m' \<and>
        fullRoute m' = RouteString (controllerMetadata_name m @ fragment)"
  by (simp add: MethodMetadata_build_def Let_def buildFullRoute_string split: option.splits)

theorem build_fullRoute_string_witness:
  "\<exists>m'. MethodMetadata_build sample_engine math_add sample_handlers = Inr m' \<and>
        fullRoute m' = RouteString ''math/add''"
  using build_fullRoute_string [of math_add "''/add''" sample_engine sample_handlers]
  by (simp add: math_add_def)

text \<open>
  C6. \<^verbatim>\<open>build\<close> is idempotent: when it has returned for a list of response handlers,
  a second call with the same list returns too and leaves the whole metadata as the
  first call left it, so \<^verbatim>\<open>headers\<close>, \<^verbatim>\<open>fullRoute\<close>, \<^verbatim>\<open>undefinedResultCode\<close>,
  \<^verbatim>\<open>nullResultCode\<close> and \<^verbatim>\<open>successHttpCode\<close> are the same after two calls as after one.
\<close>

theorem build_idempotent:
  "MethodMetadata_build rt m hs = Inr m1 \<Longrightarrow>
   \<exists>m2. MethodMetadata_build rt m1 hs = Inr m2 \<and>
        headers m2 = headers m1 \<and> fullRoute m2 = fullRoute m1 \<and>
        undefinedResultCode m2 = undefinedResultCode m1 \<and>
        nullResultCode m2 = nullResultCode m1 \<and>
        successHttpCode m2 = successHttpCode m1 \<and> m2 = m1"
  by (auto simp: MethodMetadata_build_def Let_def default_undefined_def default_null_def
           split: option.splits sum.splits)

theorem build_idempotent_witness:
  "\<exists>m1 m2. MethodMetadata_build sample_engine math_add sample_handlers = Inr m1 \<and>
        MethodMetadata_build sample_engine m1 sample_handlers = Inr m2 \<and>
        headers m2 = headers m1 \<and> fullRoute m2 = fullRoute m1 \<and>
        undefinedResultCode m2 = undefinedResultCode m1 \<and>
        nullResultCode m2 = nullResultCode m1 \<and>
        successHttpCode m2 = successHttpCode m1 \<and>
        headers m1 = Some [(''Content-type'', Str ''text/plain''), (''X-A'', Str ''2'')] \<and>
        successHttpCode m1 = Number 201"
proof -
  obtain m1 where m1: "MethodMetadata_build sample_engine math_add sample_handlers = Inr m1"
    by (simp add: MethodMetadata_build_def Let_def buildFullRoute_def math_add_def
          sample_handlers_def)
  have h: "headers m1 = Some [(''Content-type'', Str ''text/plain''), (''X-A'', Str ''2'')]"
    and s: "successHttpCode m1 = Number 201"
    using m1
    by (auto simp: MethodMetadata_build_def Let_def buildFullRoute_def math_add_def
          sample_handlers_def buildHeaders_def set_prop_def sample_engine_def plain_key_def)
  from build_idempotent [OF m1] h s m1 show ?thesis by blast
qed

text \<open>
  C10. \<^verbatim>\<open>ControllerMetadata.build\<close> leaves the controller metadata as it was
  (\<^verbatim>\<open>target\<close>, \<^verbatim>\<open>name\<close> and \<^verbatim>\<open>methods\<close> included), whatever the response handlers: the
  handler it looks up is not used.
\<close>

theorem ControllerMetadata_build_unchanged:
  "ControllerMetadata_build c responseHandlers = c
   \<and> controller_target (ControllerMetadata_build c responseHandlers) = controller_target c
   \<and> controller_name (ControllerMetadata_build c responseHandlers) = controller_name c
   \<and> methods (ControllerMetadata_build c responseHandlers) = methods c"
  by (simp add: ControllerMetadata_build_def)

section \<open>Parameters and registration\<close>

text \<open>
  C8. On the express driver, a parameter of type \<^verbatim>\<open>state\<close> (a value of the application
  state) makes \<^verbatim>\<open>getParamFromRequest\<close> throw, for every request handle: the error says that
  \<^verbatim>\<open>@State\<close> decorators are not supported by the express driver. No value is returned.
\<close>

theorem getParamFromRequest_state:
  "param_type param = ''state'' \<Longrightarrow>
   ExpressDriver_getParamFromRequest action param =
     Inl (Error ''@State decorators are not supported by express driver.'')"
  by (simp add: ExpressDriver_getParamFromRequest_def Let_def)

theorem getParamFromRequest_state_witness:
  "ExpressDriver_getParamFromRequest sample_options
     \<lparr>param_type = ''state'', param_name = Some ''user''\<rparr> =
     Inl (Error ''@State decorators are not supported by express driver.'')"
  using getParamFromRequest_state
          [of "\<lparr>param_type = ''state'', param_name = Some ''user''\<rparr>" sample_options]
  by simp

text \<open>What \<^verbatim>\<open>ExpressDriver.registerMethod\<close> does, for every method: with the body parser
  installed it applies the application object to the route \<^verbatim>\<open>routePrefix + "*"\<close>
  (\<^verbatim>\<open>fullRoute\<close> is not read), the JSON body parser, and a handler that passes
  \<^verbatim>\<open>{request, response, next}\<close> to the callback exactly when the lower-cased verb of the
  request is the method's type, and calls \<^verbatim>\<open>next()\<close> otherwise.\<close>

lemma registerMethod_call:
  "body_parser_installed rt \<Longrightarrow>
   \<exists>call. ExpressDriver_registerMethod rt this m = Inr call
     \<and> callee call = Application
     \<and> call_route call = routePrefix this @ ''*''
     \<and> (\<forall>req res. call_handler call req res =
           (if toLowerCase (req_method req) = method_type m
            then ExecuteCallback \<lparr>request = req, response = res, koa_context = None\<rparr>
            else CallNext))"
  by (simp add: ExpressDriver_registerMethod_def routeHandler_def Let_def fun_eq_iff)

lemma routeHandler_verbs:
  "routeHandler built_math_add (sample_request ''POST'') 1 = ExecuteCallback sample_options
   \<and> routeHandler built_math_add (sample_request ''HEAD'') 1 = CallNext"
  by (simp add: routeHandler_def sample_request_def toLowerCase_def lower_char_def
        built_math_add_def math_add_def sample_options_def)

text \<open>
  C9. \<^verbatim>\<open>ExpressDriver.registerMethod\<close> does not mount the handler. For the method \<^verbatim>\<open>/add\<close>
  of the controller \<^verbatim>\<open>math\<close> and the prefix \<^verbatim>\<open>/api\<close>, its one call on the host applies the
  application object itself to \<^verbatim>\<open>"/api*"\<close>, the JSON body parser and the route handler; no
  method of the application is called with them. \<^verbatim>\<open>KoaDriver.registerMethod\<close>, for the same
  method, calls the router's method \<^verbatim>\<open>post\<close> with the composed route and its handler.
\<close>

theorem registerMethod_applies_application:
  "ExpressDriver_registerMethod sample_engine sample_driver built_math_add =
     Inr \<lparr>callee = Application, call_route = ''/api*'',
          call_middlewares = [JsonBodyParser Undefined],
          call_handler = routeHandler built_math_add\<rparr>
   \<and> KoaDriver_registerMethod sample_engine sample_driver built_math_add =
     Inr \<lparr>router_method = ''post'', router_route = RouteString ''/apimath/add'',
          router_handler = koa_routeHandler\<rparr>"
  by (simp add: ExpressDriver_registerMethod_def KoaDriver_registerMethod_def
        sample_engine_def sample_driver_def built_math_add_def math_add_def Let_def
        route_prefix_def toLowerCase_def lower_char_def)

section \<open>Results\<close>

text \<open>
  C4. \<^verbatim>\<open>transformResult\<close> of \<^verbatim>\<open>src/driver/BaseDriver.ts\<close> does not hand a nullish result
  back: with the transform skipped and the result no byte array, it reads \<^verbatim>\<open>result.pipe\<close>,
  which throws a TypeError on \<^verbatim>\<open>null\<close> and on \<^verbatim>\<open>undefined\<close>, whatever the driver's settings.
  The second copy of \<^verbatim>\<open>BaseDriver\<close> returns both unchanged and does nothing else.
\<close>

theorem transformResult_nullish:
  "transformResult rt this Null m action =
     ([], Inl (TypeError ''Cannot read property pipe of null or undefined''))
   \<and> transformResult rt this Undefined m action =
     ([], Inl (TypeError ''Cannot read property pipe of null or undefined''))
   \<and> transformResult_part_001 rt this Null m action = ([], Inr Null)
   \<and> transformResult_part_001 rt this Undefined m action = ([], Inr Undefined)"
  by (simp add: transformResult_def transformResult_part_001_def nullish_def get_member_def)

lemma base_transformResult_events:
  "base_transformResult src rt this result m opts = (ev, r) \<Longrightarrow> count_list ev Next = 0"
  by (auto simp: base_transformResult_def transformResult_def transformResult_part_001_def
        Let_def split: BaseDriver_file.splits if_splits sum.splits)

lemma express_status_events: "express_status r m = Inr ev \<Longrightarrow> count_list ev Next = 0"
  by (auto simp: express_status_def split: if_splits)

lemma apply_headers_events: "apply_headers m = Inr ev \<Longrightarrow> count_list ev Next = 0"
  by (auto simp: apply_headers_def count_list_0_iff split: option.splits)

text \<open>How often the last block of the express handler calls \<^verbatim>\<open>next()\<close>.\<close>

lemma express_body_next:
  "count_list (express_body r m opts) Next =
     (if r = Undefined then (if truthy (undefinedResultCode m) then 1 else 0)
      else if r = Null then 1
      else if instanceof_Uint8Array r \<or> pipe_is_function r then 0 else 1)"
  by (cases r) (simp_all add: express_body_def)

text \<open>Past the short cut, a run of the express handler either throws before any
  \<^verbatim>\<open>next()\<close>, or reaches the last block with the transformed result.\<close>

lemma express_run:
  assumes "ExpressDriver_handleSuccess src rt this result m opts = (evs, thrown)"
    and "\<not> (truthy result \<and> is_host_at (response opts) result)"
  shows "(thrown \<noteq> None \<and> count_list evs Next = 0)
       \<or> (thrown = None \<and> (\<exists>ev1 r. base_transformResult src rt this result m opts = (ev1, Inr r)
             \<and> count_list evs Next = count_list (express_body r m opts) Next))"
  using assms
  by (auto simp: ExpressDriver_handleSuccess_def
        dest: base_transformResult_events express_status_events apply_headers_events
        split: prod.splits sum.splits)

lemma express_short:
  assumes "ExpressDriver_handleSuccess src rt this result m opts = (evs, thrown)"
    and "truthy result \<and> is_host_at (response opts) result"
  shows "evs = [Next] \<and> thrown = None"
  using assms by (simp add: ExpressDriver_handleSuccess_def)

lemma express_at_most_once:
  assumes run: "ExpressDriver_handleSuccess src rt this result m opts = (evs, thrown)"
  shows "count_list evs Next \<le> 1"
proof (cases "truthy result \<and> is_host_at (response opts) result")
  case True
  with express_short [OF run] show ?thesis by simp
next
  case False
  from express_run [OF run False] show ?thesis
    by (auto simp: express_body_next split: if_splits)
qed

lemma express_thrown:
  assumes run: "ExpressDriver_handleSuccess src rt this result m opts = (evs, thrown)"
    and "thrown \<noteq> None"
  shows "count_list evs Next = 0"
proof (cases "truthy result \<and> is_host_at (response opts) result")
  case True
  with express_short [OF run] assms(2) show ?thesis by simp
next
  case False
  from express_run [OF run False] assms(2) show ?thesis by auto
qed

lemma express_paths:
  assumes run: "ExpressDriver_handleSuccess src rt this result m opts = (evs, thrown)"
    and ok: "thrown = None"
    and ns: "\<not> (truthy result \<and> is_host_at (response opts) result)"
  shows "\<exists>ev1 r. base_transformResult src rt this result m opts = (ev1, Inr r)
          \<and> (r = Null \<or> r = Undefined \<and> truthy (undefinedResultCode m)
               \<or> \<not> nullish r \<and> \<not> instanceof_Uint8Array r \<and> \<not> pipe_is_function r
              \<longrightarrow> count_list evs Next = 1)
          \<and> (instanceof_Uint8Array r \<or> pipe_is_function r \<longrightarrow> count_list evs Next = 0)"
proof -
  from express_run [OF run ns] ok obtain ev1 r where
    tr: "base_transformResult src rt this result m opts = (ev1, Inr r)"
    and c: "count_list evs Next = count_list (express_body r m opts) Next"
    by auto
  have "r = Null \<or> r = Undefined \<and> truthy (undefinedResultCode m)
             \<or> \<not> nullish r \<and> \<not> instanceof_Uint8Array r \<and> \<not> pipe_is_function r
            \<longrightarrow> count_list evs Next = 1"
    by (auto simp: c express_body_next nullish_def)
  moreover have "instanceof_Uint8Array r \<or> pipe_is_function r \<longrightarrow> count_list evs Next = 0"
    by (auto simp: c express_body_next pipe_is_function_def prop_of_def)
  ultimately show ?thesis
    using tr by blast
qed

lemma koa_run:
  assumes "KoaDriver_handleSuccess src rt this result m opts = (kevs, kthrown)"
  shows "(kthrown = None \<longrightarrow> count_list kevs Next = 1)
       \<and> (kthrown \<noteq> None \<longrightarrow> count_list kevs Next = 0)"
  using assms
  by (auto simp: KoaDriver_handleSuccess_def
        dest: base_transformResult_events apply_headers_events
        split: prod.splits sum.splits if_splits)

text \<open>
  C2, as amended. \<^verbatim>\<open>handleSuccess\<close> calls \<^verbatim>\<open>next()\<close> at most once on every path, and not
  at all on a path that throws. The express driver calls it exactly once when the result
  is the response object itself and, with \<open>r\<close> the value \<^verbatim>\<open>transformResult\<close> returned, when
  \<open>r\<close> is \<^verbatim>\<open>null\<close>, when \<open>r\<close> is \<^verbatim>\<open>undefined\<close> and \<^verbatim>\<open>undefinedResultCode\<close> is set, and when \<open>r\<close> is
  a regular value (not nullish, no byte array, no \<^verbatim>\<open>pipe\<close> function); for a Buffer, a
  Uint8Array or a stream it ends or pipes the response and does not call \<^verbatim>\<open>next()\<close>. The
  koa driver calls it exactly once whenever it returns.
\<close>

theorem handleSuccess_next:
  "(ExpressDriver_handleSuccess src rt this result m opts = (evs, thrown) \<longrightarrow>
      count_list evs Next \<le> 1
      \<and> (thrown \<noteq> None \<longrightarrow> count_list evs Next = 0)
      \<and> (truthy result \<and> is_host_at (response opts) result \<longrightarrow> evs = [Next] \<and> thrown = None)
      \<and> (thrown = None \<and> \<not> (truthy result \<and> is_host_at (response opts) result) \<longrightarrow>
           (\<exists>ev1 r. base_transformResult src rt this result m opts = (ev1, Inr r)
              \<and> (r = Null \<or> r = Undefined \<and> truthy (undefinedResultCode m)
                   \<or> \<not> nullish r \<and> \<not> instanceof_Uint8Array r \<and> \<not> pipe_is_function r
                  \<longrightarrow> count_list evs Next = 1)
              \<and> (instanceof_Uint8Array r \<or> pipe_is_function r \<longrightarrow> count_list evs Next = 0))))
   \<and> (KoaDriver_handleSuccess src rt this result m opts = (kevs, kthrown) \<longrightarrow>
        (kthrown = None \<longrightarrow> count_list kevs Next = 1)
        \<and> (kthrown \<noteq> None \<longrightarrow> count_list kevs Next = 0))"
  using express_short [of src rt this result m opts evs thrown]
    express_at_most_once [of src rt this result m opts evs thrown]
    express_thrown [of src rt this result m opts evs thrown]
    express_paths [of src rt this result m opts evs thrown]
    koa_run [of src rt this result m opts kevs kthrown]
  by blast

text \<open>The theorem at a regular result (a plain object), at the response object, at a stream
  and, for koa, at a stream: one \<^verbatim>\<open>next()\<close>, one, none, one.\<close>

theorem handleSuccess_next_witness:
  "ExpressDriver_handleSuccess BaseDriver_part_001 sample_engine sample_driver (Obj [(''sum'', Number 3)])
       built_math_add sample_options =
     ([SetHeader ''Content-type'' (Str ''text/plain''), Json (Obj [(''sum'', Number 3)]), Next],
      None)
   \<and> count_list [SetHeader ''Content-type'' (Str ''text/plain''),
                  Json (Obj [(''sum'', Number 3)]), Next] Next = 1
   \<and> ExpressDriver_handleSuccess BaseDriver_ts sample_engine sample_driver the_response
       built_math_add sample_options = ([Next], None)
   \<and> snd (ExpressDriver_handleSuccess BaseDriver_ts sample_engine sample_driver a_stream
       built_math_add sample_options) = None
   \<and> count_list (fst (ExpressDriver_handleSuccess BaseDriver_ts sample_engine sample_driver
       a_stream built_math_add sample_options)) Next = 0
   \<and> snd (KoaDriver_handleSuccess BaseDriver_part_001 sample_engine sample_driver a_stream
       built_math_add sample_options) = None
   \<and> count_list (fst (KoaDriver_handleSuccess BaseDriver_part_001 sample_engine sample_driver
       a_stream built_math_add sample_options)) Next = 1"
proof -
  note defs = ExpressDriver_handleSuccess_def KoaDriver_handleSuccess_def
    base_transformResult_def transformResult_def transformResult_part_001_def a_stream_def
    the_response_def sample_options_def built_math_add_def math_add_def sample_driver_def
    sample_engine_def nullish_def pipe_is_function_def prop_of_def get_member_def
    express_status_def apply_headers_def express_body_def keys_of_def is_koa_context_def Let_def
  have hi: "ExpressDriver_handleSuccess BaseDriver_part_001 sample_engine sample_driver
       (Obj [(''sum'', Number 3)]) built_math_add sample_options =
     ([SetHeader ''Content-type'' (Str ''text/plain''), Json (Obj [(''sum'', Number 3)]), Next],
      None)"
    by (simp add: defs)
  have tr: "base_transformResult BaseDriver_part_001 sample_engine sample_driver
       (Obj [(''sum'', Number 3)]) built_math_add sample_options = ([], Inr (Obj [(''sum'', Number 3)]))"
    by (simp add: defs)
  have one: "count_list [SetHeader ''Content-type'' (Str ''text/plain''),
       Json (Obj [(''sum'', Number 3)]), Next] Next = 1"
    using handleSuccess_next [of BaseDriver_part_001 sample_engine sample_driver
        "Obj [(''sum'', Number 3)]"
        built_math_add sample_options
        "[SetHeader ''Content-type'' (Str ''text/plain''), Json (Obj [(''sum'', Number 3)]), Next]" None] hi tr
    by (simp add: nullish_def pipe_is_function_def prop_of_def sample_options_def)
  have resp: "ExpressDriver_handleSuccess BaseDriver_ts sample_engine sample_driver the_response
       built_math_add sample_options = ([Next], None)"
    using handleSuccess_next [of BaseDriver_ts sample_engine sample_driver the_response
        built_math_add sample_options
        "fst (ExpressDriver_handleSuccess BaseDriver_ts sample_engine sample_driver the_response
           built_math_add sample_options)"
        "snd (ExpressDriver_handleSuccess BaseDriver_ts sample_engine sample_driver the_response
           built_math_add sample_options)"]
    by (simp add: the_response_def sample_options_def prod_eq_iff)
  have str: "ExpressDriver_handleSuccess BaseDriver_ts sample_engine sample_driver a_stream
       built_math_add sample_options =
     ([Pipe a_stream 1, SetHeader ''Content-type'' (Str ''text/plain''), Pipe a_stream 1], None)"
    by (simp add: defs)
  have koa: "snd (KoaDriver_handleSuccess BaseDriver_part_001 sample_engine sample_driver
       a_stream built_math_add sample_options) = None"
    by (simp add: defs)
  have koa1: "count_list (fst (KoaDriver_handleSuccess BaseDriver_part_001 sample_engine
       sample_driver a_stream built_math_add sample_options)) Next = 1"
    using handleSuccess_next [of BaseDriver_part_001 sample_engine sample_driver
        a_stream built_math_add sample_options "[]" None
        "fst (KoaDriver_handleSuccess BaseDriver_part_001 sample_engine sample_driver a_stream
           built_math_add sample_options)"
        "snd (KoaDriver_handleSuccess BaseDriver_part_001 sample_engine sample_driver a_stream
           built_math_add sample_options)"] koa
    by (simp add: prod_eq_iff)
  show ?thesis
    using hi one resp str koa koa1 by simp
qed

text \<open>The claim as it is written fails for a stream: the express driver pipes it into the
  response and returns without a call of \<^verbatim>\<open>next()\<close>, with either copy of \<^verbatim>\<open>BaseDriver\<close>.\<close>

theorem handleSuccess_next_counterexample:
  "ExpressDriver_handleSuccess BaseDriver_ts sample_engine sample_driver a_stream
       built_math_add sample_options =
     ([Pipe a_stream 1, SetHeader ''Content-type'' (Str ''text/plain''), Pipe a_stream 1], None)
   \<and> ExpressDriver_handleSuccess BaseDriver_part_001 sample_engine sample_driver a_stream
       built_math_add sample_options =
     ([SetHeader ''Content-type'' (Str ''text/plain''), Pipe a_stream 1], None)
   \<and> count_list [Pipe a_stream 1, SetHeader ''Content-type'' (Str ''text/plain''),
                  Pipe a_stream 1] Next = 0
   \<and> count_list [SetHeader ''Content-type'' (Str ''text/plain''), Pipe a_stream 1] Next = 0"
  by (simp add: ExpressDriver_handleSuccess_def base_transformResult_def transformResult_def
        transformResult_part_001_def a_stream_def sample_options_def built_math_add_def
        math_add_def sample_driver_def sample_engine_def nullish_def pipe_is_function_def
        prop_of_def get_member_def express_status_def apply_headers_def express_body_def
        keys_of_def Let_def)

section \<open>Error envelopes\<close>

lemma map_of_set_prop: "map_of (set_prop ps k v) = (map_of ps)(k \<mapsto> v)"
  by (simp add: set_prop_def update_conv')

lemma keys_of_set_prop: "keys_of (set_prop ps k v) \<noteq> []"
  by (cases ps) (auto simp: set_prop_def keys_of_def)

text \<open>A run of assignments \<^verbatim>\<open>o[key] = f(key)\<close>: the keys assigned hold \<open>f\<close>'s values, the
  others keep theirs.\<close>

lemma map_of_fold_set_prop:
  "map_of (fold (\<lambda>key d. set_prop d key (f key)) ks d0) k =
     (if k \<in> set ks then Some (f k) else map_of d0 k)"
  by (induction ks arbitrary: d0) (auto simp: map_of_set_prop)

text \<open>The second loop of \<^verbatim>\<open>merge\<close> gives every key of \<open>obj2\<close> the value \<open>obj2\<close> has for it,
  whatever the first loop stored there.\<close>

lemma merge_second_loop_wins:
  "map_of (enum_props obj2) k = Some v \<Longrightarrow>
   map_of (merge_second_loop obj2 result) k = Some v"
proof -
  assume v: "map_of (enum_props obj2) k = Some v"
  then have "k \<in> set (keys_of (enum_props obj2))"
    by (auto simp: keys_of_def dest: map_of_SomeD intro: rev_image_eqI)
  with v show ?thesis
    by (simp add: merge_second_loop_def map_of_fold_set_prop prop_of_def)
qed

text \<open>So \<^verbatim>\<open>merge\<close> is shallow: whenever it returns for two objects, each key of the second
  has the second's value in the result, an object-valued key included.\<close>

lemma merge_right_wins:
  assumes "merge (Obj ps) (Obj qs) = Inr r" and "map_of qs k = Some v"
  shows "prop_of (enum_props r) k = v"
proof -
  from assms(1) obtain result where "r = Obj (merge_second_loop (Obj qs) result)"
    by (auto split: sum.splits)
  with merge_second_loop_wins [of "Obj qs" k v result] assms(2) show ?thesis
    by (simp add: prop_of_def)
qed

text \<open>
  C3. \<^verbatim>\<open>merge\<close> does not merge recursively: for \<^verbatim>\<open>{data: {x: 1}}\<close> and the override
  \<^verbatim>\<open>{data: {y: 2}}\<close> the first loop stores the recursive merge of the two \<^verbatim>\<open>data\<close> objects
  and the second loop overwrites it with the override's \<^verbatim>\<open>data\<close>, so the result is
  \<^verbatim>\<open>{data: {y: 2}}\<close> and the field \<^verbatim>\<open>x\<close> is gone.
\<close>

theorem merge_overwrites_nested:
  "merge (Obj [(''data'', Obj [(''x'', Number 1)])]) (Obj [(''data'', Obj [(''y'', Number 2)])])
     = Inr (Obj [(''data'', Obj [(''y'', Number 2)])])"
  by (simp add: merge_second_loop_def set_prop_def prop_of_def keys_of_def)

text \<open>The same through \<^verbatim>\<open>processJsonError\<close> of the second copy: an error with the own
  property \<^verbatim>\<open>details = {x: 1}\<close> and an override \<^verbatim>\<open>{details: {y: 2}}\<close> for its name.\<close>

lemma processJsonError_override_nested:
  "processJsonError_part_001
     (sample_driver\<lparr>errorOverridingMap :=
        Some [(''Error'', Obj [(''details'', Obj [(''y'', Number 2)])])]\<rparr>)
     (CaughtObject (boom\<lparr>own_props := [(''details'', Obj [(''x'', Number 1)])]\<rparr>)) =
   Inr (Envelope (Obj [(''name'', Str ''Error''), (''message'', Str ''boom''),
                       (''details'', Obj [(''y'', Number 2)])]))"
  by (simp add: processJsonError_part_001_def sample_driver_def boom_def
        Let_def classified_name_def read_error_def prop_of_def set_prop_def keys_of_def
        apply_overrides_def merge_second_loop_def)

lemma envelope_of_stack:
  assumes "truthy (read_error e ''stack'')"
  shows "\<exists>env data. envelope_of this code e = Obj env \<and> \<not> has_key (Obj env) ''stack''
           \<and> prop_of env ''data'' = Obj data
           \<and> has_key (Obj data) ''stack'' = developmentMode this"
  using assms
  by (simp add: envelope_of_def Let_def has_key_def map_of_set_prop prop_of_def
        map_of_fold_set_prop keys_of_set_prop)

text \<open>The keys of a merge: those of the first object and those of the second.\<close>

lemma has_key_iff: "has_key v k = (k \<in> fst ` set (enum_props v))"
  by (simp add: has_key_def map_of_eq_None_iff)

lemma keys_set_prop: "fst ` set (set_prop ps k v) = insert k (fst ` set ps)"
  by (simp add: set_prop_def dom_update)

lemma keys_fold_set_prop:
  "fst ` set (fold (\<lambda>key d. set_prop d key (f key)) ks d0) = set ks \<union> fst ` set d0"
  by (induction ks arbitrary: d0) (auto simp: keys_set_prop)

lemma merge_props_keys:
  "merge_props ps obj2 acc = Inr res \<Longrightarrow> fst ` set res = fst ` set acc \<union> fst ` set ps"
proof (induction ps arbitrary: acc)
  case Nil
  then show ?case by simp
next
  case (Cons p ps)
  obtain i v where p: "p = (i, v)" by (cases p)
  from Cons.prems p obtain x where "merge_props ps obj2 (set_prop acc i x) = Inr res"
    by (auto split: sum.splits if_splits)
  from Cons.IH [OF this] p show ?case
    by (auto simp: keys_set_prop)
qed

lemma merge_second_loop_keys:
  "fst ` set (merge_second_loop obj2 result) = fst ` set (enum_props obj2) \<union> fst ` set result"
  by (simp add: merge_second_loop_def keys_fold_set_prop keys_of_def)

lemma merge_Obj_keys:
  assumes "merge (Obj ps) obj2 = Inr r"
  shows "\<exists>res. r = Obj res \<and> fst ` set res = fst ` set ps \<union> fst ` set (enum_props obj2)"
proof -
  from assms obtain result where m: "merge_props ps obj2 [] = Inr result"
    and r: "r = Obj (merge_second_loop obj2 result)"
    by (auto split: sum.splits)
  from merge_props_keys [OF m] r show ?thesis
    by (auto simp: merge_second_loop_keys)
qed

lemma merge_each_keys:
  "merge_each keys overrides (Obj pe) = Inr r \<Longrightarrow>
   \<exists>res. r = Obj res
     \<and> fst ` set res =
         fst ` set pe \<union> (\<Union>key\<in>set keys. fst ` set (enum_props (prop_of overrides key)))"
proof (induction keys arbitrary: pe)
  case Nil
  then show ?case by auto
next
  case (Cons key keys)
  from Cons.prems obtain merged where
    m: "merge (Obj pe) (prop_of overrides key) = Inr merged"
    and rest: "merge_each keys overrides merged = Inr r"
    by (auto split: sum.splits)
  from merge_Obj_keys [OF m] obtain res1 where res1: "merged = Obj res1"
    and k1: "fst ` set res1 = fst ` set pe \<union> fst ` set (enum_props (prop_of overrides key))"
    by blast
  from Cons.IH [OF rest [unfolded res1]] k1 show ?case
    by auto
qed

lemma set_set_prop: "set (set_prop ps k v) \<subseteq> insert (k, v) (set ps)"
  by (induction ps) (auto simp: set_prop_def)

lemma fold_set_prop_values:
  "\<forall>p\<in>set d0. P (snd p) \<Longrightarrow> \<forall>key\<in>set ks. P (f key) \<Longrightarrow>
   \<forall>p\<in>set (fold (\<lambda>key d. set_prop d key (f key)) ks d0). P (snd p)"
proof (induction ks arbitrary: d0)
  case Nil
  then show ?case by simp
next
  case (Cons key ks)
  have "\<forall>p\<in>set (set_prop d0 key (f key)). P (snd p)"
    using Cons.prems set_set_prop [of d0 key "f key"] by auto
  from Cons.IH [OF this] Cons.prems(2) show ?case
    by simp
qed

text \<open>Where no property of the first object is an object, the first loop of \<^verbatim>\<open>merge\<close> makes
  no recursive call, and \<^verbatim>\<open>merge\<close> with a plain object returns.\<close>

lemma merge_props_flat:
  "\<forall>p\<in>set ps. \<not> typeof_object (snd p) \<Longrightarrow> \<exists>res. merge_props ps (Obj qs) acc = Inr res"
  by (induction ps arbitrary: acc) auto

lemma merge_flat_returns:
  "\<forall>p\<in>set ps. \<not> typeof_object (snd p) \<Longrightarrow> \<exists>r. merge (Obj ps) (Obj qs) = Inr (Obj r)"
  using merge_props_flat [of ps qs "[]"] by auto

text \<open>\<^verbatim>\<open>processJsonError\<close> of the second copy on a plain \<^verbatim>\<open>Error\<close> with a stack trace: the
  envelope before the overrides has the name, has a stack entry exactly in development
  mode, and holds no object if the error's fields are none; the overrides are applied to
  it.\<close>

lemma part_001_run:
  assumes "is_Error e" "toJSON_result e = None" "truthy (read_error e ''stack'')"
  shows "\<exists>pe. ''name'' \<in> fst ` set pe
           \<and> (''stack'' \<in> fst ` set pe) = developmentMode this
           \<and> (plain_fields e \<longrightarrow> (\<forall>p\<in>set pe. \<not> typeof_object (snd p)))
           \<and> processJsonError_part_001 this (CaughtObject e) =
               (case apply_overrides this (classified_name e) (Obj pe) of
                  Inl err \<Rightarrow> Inl err
                | Inr processedError \<Rightarrow>
                    Inr (Envelope (if length (keys_of (enum_props processedError)) > 0
                                   then processedError else Undefined)))"
proof -
  let ?ks = "filter (\<lambda>key. key \<noteq> ''stack'' \<and> key \<noteq> ''name'' \<and> key \<noteq> ''message''
                     \<and> (\<not> is_RpcError e \<or> key \<noteq> ''httpCode'')) (keys_of (own_props e))"
  let ?pe1 = "if truthy (read_error e ''message'')
              then set_prop (set_prop [] ''name'' (classified_name e)) ''message''
                     (read_error e ''message'')
              else set_prop [] ''name'' (classified_name e)"
  let ?pe2 = "if developmentMode this then set_prop ?pe1 ''stack'' (read_error e ''stack'')
              else ?pe1"
  let ?pe3 = "fold (\<lambda>key pe. set_prop pe key (read_error e key)) ?ks ?pe2"
  have name: "''name'' \<in> fst ` set ?pe3"
    by (simp add: keys_fold_set_prop keys_set_prop)
  have stack: "(''stack'' \<in> fst ` set ?pe3) = developmentMode this"
    by (simp add: keys_fold_set_prop keys_set_prop)
  have flat: "\<forall>p\<in>set ?pe3. \<not> typeof_object (snd p)" if pf: "plain_fields e"
  proof (rule fold_set_prop_values)
    from pf show "\<forall>p\<in>set ?pe2. \<not> typeof_object (snd p)"
      by (auto simp: plain_fields_def set_prop_def)
    from pf show "\<forall>key\<in>set ?ks. \<not> typeof_object (read_error e key)"
      by (auto simp: plain_fields_def list_all_iff)
  qed
  have "processJsonError_part_001 this (CaughtObject e) =
               (case apply_overrides this (classified_name e) (Obj ?pe3) of
                  Inl err \<Rightarrow> Inl err
                | Inr processedError \<Rightarrow>
                    Inr (Envelope (if length (keys_of (enum_props processedError)) > 0
                                   then processedError else Undefined)))"
    using assms by (simp add: processJsonError_part_001_def Let_def)
  with name stack flat show ?thesis
    by blast
qed

lemma apply_overrides_keys:
  assumes "apply_overrides this (classified_name e) (Obj pe) = Inr r"
  shows "\<exists>res. r = Obj res
           \<and> (\<forall>k. (k \<in> fst ` set res) = (k \<in> fst ` set pe \<or> override_has_key this e k))"
proof (cases "errorOverridingMap this")
  case None
  with assms show ?thesis
    by (auto simp: apply_overrides_def override_has_key_def)
next
  case (Some overrides)
  with assms have "merge_each (filter (\<lambda>key. classified_name e = Str key) (keys_of overrides))
      overrides (Obj pe) = Inr r"
    by (simp add: apply_overrides_def)
  from merge_each_keys [OF this] Some show ?thesis
    by (auto simp: override_has_key_def list_ex_iff has_key_iff)
qed

lemma part_001_returned:
  assumes plain: "is_Error e" "toJSON_result e = None" "truthy (read_error e ''stack'')"
    and ret: "processJsonError_part_001 this (CaughtObject e) = Inr r"
  shows "\<exists>env. r = Envelope (Obj env)
           \<and> has_key (Obj env) ''stack'' =
               (developmentMode this \<or> override_has_key this e ''stack'')"
proof -
  from part_001_run [OF plain, of this] obtain pe where
    name: "''name'' \<in> fst ` set pe"
    and stack: "(''stack'' \<in> fst ` set pe) = developmentMode this"
    and run: "processJsonError_part_001 this (CaughtObject e) =
               (case apply_overrides this (classified_name e) (Obj pe) of
                  Inl err \<Rightarrow> Inl err
                | Inr processedError \<Rightarrow>
                    Inr (Envelope (if length (keys_of (enum_props processedError)) > 0
                                   then processedError else Undefined)))"
    by blast
  from ret run obtain processedError where
    ov: "apply_overrides this (classified_name e) (Obj pe) = Inr processedError"
    and r: "r = Envelope (if length (keys_of (enum_props processedError)) > 0
                          then processedError else Undefined)"
    by (auto split: sum.splits)
  from apply_overrides_keys [OF ov] obtain res where res: "processedError = Obj res"
    and keys: "\<And>k. (k \<in> fst ` set res) = (k \<in> fst ` set pe \<or> override_has_key this e k)"
    by blast
  from keys [of "''name''"] name have "res \<noteq> []"
    by auto
  with r res have "r = Envelope (Obj res)"
    by (simp add: keys_of_def)
  with keys [of "''stack''"] stack show ?thesis
    by (simp add: has_key_iff)
qed

lemma part_001_returns:
  assumes plain: "is_Error e" "toJSON_result e = None" "truthy (read_error e ''stack'')"
    and ok: "no_override this e \<or> plain_fields e \<and> object_override this e"
  shows "\<exists>env. processJsonError_part_001 this (CaughtObject e) = Inr (Envelope (Obj env))"
proof -
  from part_001_run [OF plain, of this] obtain pe where
    flat: "plain_fields e \<longrightarrow> (\<forall>p\<in>set pe. \<not> typeof_object (snd p))"
    and run: "processJsonError_part_001 this (CaughtObject e) =
               (case apply_overrides this (classified_name e) (Obj pe) of
                  Inl err \<Rightarrow> Inl err
                | Inr processedError \<Rightarrow>
                    Inr (Envelope (if length (keys_of (enum_props processedError)) > 0
                                   then processedError else Undefined)))"
    by blast
  have "\<exists>r. apply_overrides this (classified_name e) (Obj pe) = Inr r"
  proof (cases "no_override this e")
    case True
    then show ?thesis
      by (simp add: apply_overrides_def no_override_def split: option.splits)
  next
    case False
    with ok have pf: "plain_fields e" and oo: "object_override this e"
      by simp_all
    from oo obtain overrides key qs where
      m: "errorOverridingMap this = Some overrides"
      and f: "filter (\<lambda>key. classified_name e = Str key) (keys_of overrides) = [key]"
      and q: "prop_of overrides key = Obj qs"
      by (auto simp: object_override_def split: option.splits list.splits elim: is_Obj.elims)
    from flat pf merge_flat_returns [of pe qs] obtain merged where
      "merge (Obj pe) (Obj qs) = Inr (Obj merged)"
      by blast
    with m f q show ?thesis
      by (simp add: apply_overrides_def)
  qed
  then obtain r0 where ov: "apply_overrides this (classified_name e) (Obj pe) = Inr r0"
    by blast
  with run have "processJsonError_part_001 this (CaughtObject e) =
      Inr (Envelope (if length (keys_of (enum_props r0)) > 0 then r0 else Undefined))"
    by simp
  with part_001_returned [OF plain this] show ?thesis
    by auto
qed

text \<open>
  C7, as amended. For a plain \<^verbatim>\<open>Error\<close> (no \<^verbatim>\<open>RpcError\<close>, no \<^verbatim>\<open>toJSON\<close>) with a stack trace:
  \<^item> \<^verbatim>\<open>processJsonError\<close> of \<^verbatim>\<open>src/driver/BaseDriver.ts\<close> returns an envelope with no
    \<^verbatim>\<open>stack\<close> of its own, whose \<^verbatim>\<open>data\<close> object has a \<^verbatim>\<open>stack\<close> entry exactly in development
    mode;
  \<^item> every envelope \<^verbatim>\<open>processJsonError\<close> of the second copy returns has a \<^verbatim>\<open>stack\<close> entry
    exactly if the development mode is on or the override for the error's name has a
    \<^verbatim>\<open>stack\<close> entry itself; so with an override that has none, exactly in development
    mode;
  \<^item> the second copy returns an envelope where no override applies, and where the
    error's fields are no objects and the one override that applies is a plain object
    (it throws only out of \<^verbatim>\<open>merge\<close>).
\<close>

theorem processJsonError_stack:
  assumes "is_Error e" "\<not> is_RpcError e" "toJSON_result e = None"
    "truthy (read_error e ''stack'')"
  shows "(\<exists>env data. processJsonError rpc this (CaughtObject e) = Inr (Obj env)
            \<and> \<not> has_key (Obj env) ''stack''
            \<and> prop_of env ''data'' = Obj data
            \<and> has_key (Obj data) ''stack'' = developmentMode this)
       \<and> (\<forall>r. processJsonError_part_001 this (CaughtObject e) = Inr r \<longrightarrow>
            (\<exists>env. r = Envelope (Obj env)
               \<and> has_key (Obj env) ''stack'' =
                   (developmentMode this \<or> override_has_key this e ''stack'')))
       \<and> (no_override this e \<or> plain_fields e \<and> object_override this e \<longrightarrow>
            (\<exists>env. processJsonError_part_001 this (CaughtObject e) = Inr (Envelope (Obj env))))"
proof -
  have named: "\<exists>env data. processJsonError rpc this (CaughtObject e) = Inr (Obj env)
            \<and> \<not> has_key (Obj env) ''stack''
            \<and> prop_of env ''data'' = Obj data
            \<and> has_key (Obj data) ''stack'' = developmentMode this"
    using assms envelope_of_stack [of e this "ServerError_rpcCode rpc"]
    by (simp add: processJsonError_def)
  from named part_001_returned [OF assms(1,3,4), of this] part_001_returns [OF assms(1,3,4), of this]
  show ?thesis
    by blast
qed

text \<open>The theorem at \<^verbatim>\<open>new Error("boom")\<close>, outside development mode and in it: without
  an override, and with the override \<^verbatim>\<open>{code: 42}\<close> for \<^verbatim>\<open>Error\<close>.\<close>

theorem processJsonError_stack_witness:
  "is_Error boom \<and> \<not> is_RpcError boom \<and> toJSON_result boom = None
   \<and> truthy (read_error boom ''stack'') \<and> plain_fields boom
   \<and> no_override sample_driver boom \<and> no_override development_driver boom
   \<and> object_override (coded_driver False) boom \<and> object_override (coded_driver True) boom
   \<and> \<not> override_has_key (coded_driver False) boom ''stack''
   \<and> \<not> override_has_key (coded_driver True) boom ''stack''
   \<and> (\<exists>env data. processJsonError sample_rpc_errors sample_driver (CaughtObject boom)
          = Inr (Obj env)
        \<and> prop_of env ''data'' = Obj data \<and> \<not> has_key (Obj data) ''stack'')
   \<and> (\<exists>env data. processJsonError sample_rpc_errors development_driver (CaughtObject boom)
          = Inr (Obj env)
        \<and> prop_of env ''data'' = Obj data \<and> has_key (Obj data) ''stack'')
   \<and> (\<exists>env. processJsonError_part_001 sample_driver (CaughtObject boom)
          = Inr (Envelope (Obj env)) \<and> \<not> has_key (Obj env) ''stack'')
   \<and> (\<exists>env. processJsonError_part_001 development_driver (CaughtObject boom)
          = Inr (Envelope (Obj env)) \<and> has_key (Obj env) ''stack'')
   \<and> (\<exists>env. processJsonError_part_001 (coded_driver False) (CaughtObject boom)
          = Inr (Envelope (Obj env)) \<and> \<not> has_key (Obj env) ''stack'')
   \<and> (\<exists>env. processJsonError_part_001 (coded_driver True) (CaughtObject boom)
          = Inr (Envelope (Obj env)) \<and> has_key (Obj env) ''stack'')"
proof -
  have h: "is_Error boom" "\<not> is_RpcError boom" "toJSON_result boom = None"
    "truthy (read_error boom ''stack'')"
    by (simp_all add: boom_def read_error_def prop_of_def)
  have pf: "plain_fields boom"
    by (simp add: plain_fields_def boom_def read_error_def prop_of_def classified_name_def
          keys_of_def)
  have n: "no_override sample_driver boom" "no_override development_driver boom"
    by (simp_all add: no_override_def sample_driver_def development_driver_def)
  have o: "object_override (coded_driver False) boom" "object_override (coded_driver True) boom"
    "\<not> override_has_key (coded_driver False) boom ''stack''"
    "\<not> override_has_key (coded_driver True) boom ''stack''"
    by (simp_all add: object_override_def override_has_key_def coded_driver_def
          sample_driver_def boom_def classified_name_def read_error_def prop_of_def keys_of_def
          has_key_def)
  have d: "\<not> developmentMode sample_driver" "developmentMode development_driver"
    "\<not> developmentMode (coded_driver False)" "developmentMode (coded_driver True)"
    "\<not> override_has_key sample_driver boom ''stack''"
    "\<not> override_has_key development_driver boom ''stack''"
    by (simp_all add: sample_driver_def development_driver_def coded_driver_def
          override_has_key_def)
  note t = processJsonError_stack [OF h, of sample_rpc_errors]
  from t [of sample_driver] t [of development_driver] t [of "coded_driver False"]
    t [of "coded_driver True"] h pf n o d
  show ?thesis
    by (auto 4 3)
qed

text \<open>The claim as it is written fails where the override for the error's name has a
  \<^verbatim>\<open>stack\<close> entry: outside development mode, the override \<^verbatim>\<open>{stack: "hidden"}\<close> for \<^verbatim>\<open>Error\<close>
  puts a \<^verbatim>\<open>stack\<close> entry into the envelope of \<^verbatim>\<open>new Error("boom")\<close>.\<close>

theorem processJsonError_stack_counterexample:
  "processJsonError_part_001 overriding_driver (CaughtObject boom) =
     Inr (Envelope (Obj [(''name'', Str ''Error''), (''message'', Str ''boom''),
                         (''stack'', Str ''hidden'')]))
   \<and> developmentMode overriding_driver = False
   \<and> has_key (Obj [(''name'', Str ''Error''), (''message'', Str ''boom''),
                    (''stack'', Str ''hidden'')]) ''stack''"
  by (simp add: processJsonError_part_001_def overriding_driver_def sample_driver_def boom_def
        Let_def classified_name_def read_error_def prop_of_def set_prop_def keys_of_def
        apply_overrides_def merge_second_loop_def has_key_def)

end
